theory Spec2Isabelle
  imports Complex_Main "HOL-Library.Sublist"
begin

section \<open>StripeCheckout: the checkout form\<close>

text \<open>
  The component of \<^verbatim>\<open>StripeCheckout.tsx\<close> keeps three pieces of local state
  (\<^verbatim>\<open>useState\<close>), reads two hooks (\<^verbatim>\<open>useStripe\<close>, \<^verbatim>\<open>useElements\<close>) and has one
  asynchronous handler, \<^verbatim>\<open>handleSubmit\<close>. A handler is modelled as the ordered list of
  the effects it performs (state setters and calls), and the state after the handler as
  the fold of the setters over the state before it.
\<close>

subsection \<open>Values\<close>

text \<open>A JavaScript \<^verbatim>\<open>Error\<close> object, as far as the component reads it: its message.\<close>

datatype js_error = Error (message: string)

text \<open>
  \<^verbatim>\<open>new Error(m)\<close>: the message of the new object is \<^verbatim>\<open>m\<close>; when \<^verbatim>\<open>m\<close> is
  \<^verbatim>\<open>undefined\<close> no own property is created and \<^verbatim>\<open>.message\<close> reads the empty string
  of \<^verbatim>\<open>Error.prototype\<close>.
\<close>

definition new_Error :: "string option \<Rightarrow> js_error" where
  "new_Error m = Error (case m of None \<Rightarrow> [] | Some s \<Rightarrow> s)"

text \<open>\<^verbatim>\<open>StripeError\<close>: the field \<^verbatim>\<open>message?: string\<close> is optional.\<close>

datatype stripe_error = StripeError (stripe_message: "string option")

text \<open>Opaque handles returned by \<^verbatim>\<open>useStripe()\<close> and \<^verbatim>\<open>useElements()\<close>; each may be null.\<close>

datatype stripe = Stripe nat
datatype stripe_elements = StripeElements nat

record hooks =
  stripe :: "stripe option"
  elements :: "stripe_elements option"

text \<open>The argument object of \<^verbatim>\<open>stripe.confirmPayment\<close>.\<close>

record confirm_options =
  elements_arg :: stripe_elements
  return_url :: string
  redirect :: string

text \<open>
  How the awaited \<^verbatim>\<open>confirmPayment\<close> call ends: it resolves with a result whose
  \<^verbatim>\<open>error\<close> field is present or absent, or it rejects with a value that the handler
  casts to \<^verbatim>\<open>Error\<close> and whose \<^verbatim>\<open>message\<close> it reads as a string.
\<close>

datatype confirm_outcome =
    Resolved "stripe_error option"
  | Raised js_error

text \<open>
  How the call \<^verbatim>\<open>onComplete()\<close> ends: the callback of the parent returns, or it throws
  a value, which the \<^verbatim>\<open>catch\<close> block of the handler then receives like a rejection of
  the confirmation.
\<close>

datatype callback_outcome =
    Returns
  | Throws js_error

record checkout_state =
  isLoading :: bool
  isSubmitting :: bool
  error :: "js_error option"

definition initial_state :: checkout_state where
  "initial_state = \<lparr>isLoading = True, isSubmitting = False, error = None\<rparr>"

subsection \<open>Effects\<close>

datatype action =
    PreventDefault
  | SetIsLoading bool
  | SetIsSubmitting bool
  | SetError "js_error option"
  | ConfirmPayment confirm_options
  | OnComplete

fun apply_action :: "action \<Rightarrow> checkout_state \<Rightarrow> checkout_state" where
  "apply_action (SetIsLoading b) s = s\<lparr>isLoading := b\<rparr>"
| "apply_action (SetIsSubmitting b) s = s\<lparr>isSubmitting := b\<rparr>"
| "apply_action (SetError e) s = s\<lparr>error := e\<rparr>"
| "apply_action PreventDefault s = s"
| "apply_action (ConfirmPayment opts) s = s"
| "apply_action OnComplete s = s"

definition run :: "action list \<Rightarrow> checkout_state \<Rightarrow> checkout_state" where
  "run acts s = fold apply_action acts s"

text \<open>Calls on the payment capability, as opposed to setters and callbacks.\<close>

fun is_stripe_call :: "action \<Rightarrow> bool" where
  "is_stripe_call (ConfirmPayment opts) = True"
| "is_stripe_call a = False"

fun is_setter :: "action \<Rightarrow> bool" where
  "is_setter (SetIsLoading b) = True"
| "is_setter (SetIsSubmitting b) = True"
| "is_setter (SetError e) = True"
| "is_setter a = False"

subsection \<open>String.prototype.includes\<close>

text \<open>
  \<^verbatim>\<open>s.includes(sub)\<close>: whether \<open>sub\<close> occurs in \<open>s\<close> at some position, that is, whether
  it is a prefix of \<open>s\<close> or of one of its suffixes.
\<close>

fun str_includes :: "string \<Rightarrow> string \<Rightarrow> bool" where
  "str_includes [] sub = (sub = [])"
| "str_includes (c # cs) sub = (prefix sub (c # cs) \<or> str_includes cs sub)"

subsection \<open>handleSubmit\<close>

text \<open>
  The part of \<^verbatim>\<open>handleSubmit\<close> that runs before the \<^verbatim>\<open>await\<close>: the guard, the
  setter and the call.
\<close>

definition handleSubmit_begin :: "hooks \<Rightarrow> action list" where
  "handleSubmit_begin h =
     (if stripe h = None \<or> elements h = None then [PreventDefault]
      else [PreventDefault,
            SetIsSubmitting True,
            ConfirmPayment \<lparr>elements_arg = the (elements h),
                            return_url = ''http://cartridge.gg'',
                            redirect = ''if_required''\<rparr>])"

text \<open>
  The \<^verbatim>\<open>catch\<close> block, for the caught value \<open>e\<close>.
\<close>

definition catch_block :: "js_error \<Rightarrow> action list" where
  "catch_block e =
     (if str_includes (message e) ''Failed to set the 'href' property''
      then [SetError (Some (new_Error (Some ''Payment unsupported'')))]
      else [SetError (Some e)])"

text \<open>
  The part that runs once the call has ended: the \<^verbatim>\<open>try\<close> body after the
  \<^verbatim>\<open>await\<close>, with the \<^verbatim>\<open>catch\<close> block where the confirmation was rejected or
  \<^verbatim>\<open>onComplete\<close> threw, and then the \<^verbatim>\<open>finally\<close> block, which runs on every path,
  also after the two \<^verbatim>\<open>return\<close> statements.
\<close>

definition handleSubmit_settle :: "confirm_outcome \<Rightarrow> callback_outcome \<Rightarrow> action list" where
  "handleSubmit_settle out oc =
     (case out of
        Resolved res \<Rightarrow>
          (case res of
             Some err \<Rightarrow> [SetError (Some (new_Error (stripe_message err)))]
           | None \<Rightarrow>
               (case oc of
                  Returns \<Rightarrow> [OnComplete]
                | Throws e \<Rightarrow> OnComplete # catch_block e))
      | Raised e \<Rightarrow> catch_block e)
     @ [SetIsSubmitting False]"

definition handleSubmit :: "hooks \<Rightarrow> confirm_outcome \<Rightarrow> callback_outcome \<Rightarrow> action list" where
  "handleSubmit h out oc =
     (if stripe h = None \<or> elements h = None then handleSubmit_begin h
      else handleSubmit_begin h @ handleSubmit_settle out oc)"

subsection \<open>The events of the payment element\<close>

definition onReady :: "action list" where
  "onReady = [SetIsLoading False]"

definition onChange :: "action list" where
  "onChange = [SetError None]"

subsection \<open>What is rendered\<close>

record error_alert =
  variant :: string
  title :: string
  description :: string

definition error_banner :: "checkout_state \<Rightarrow> error_alert option" where
  "error_banner s =
     (case error s of
        None \<Rightarrow> None
      | Some e \<Rightarrow> Some \<lparr>variant = ''error'', title = ''Stripe Checkout Error'',
                       description = message e\<rparr>)"

definition button_disabled :: "hooks \<Rightarrow> checkout_state \<Rightarrow> bool" where
  "button_disabled h s =
     (isSubmitting s \<or> stripe h = None \<or> elements h = None \<or> isLoading s)"

section \<open>CostBreakdown: the cost summary\<close>

subsection \<open>Numbers\<close>

text \<open>
  A finite JavaScript number is modelled by the real number it denotes. The quotient of two
  numbers is the exact quotient rounded to the nearest number with a 53-bit significand,
  ties to the even significand. The exponent range is left out: the quotients taken here,
  of a non-zero integer-valued number by 100, are neither subnormal nor infinite.
\<close>

fun ilog2 :: "nat \<Rightarrow> nat" where
  "ilog2 n = (if n < 2 then 0 else Suc (ilog2 (n div 2)))"

declare ilog2.simps [simp del]

text \<open>For a positive \<open>q\<close>, the exponent \<open>e\<close> with \<open>2 ^ e \<le> q < 2 ^ (e + 1)\<close>.\<close>

definition binary_exponent :: "real \<Rightarrow> int" where
  "binary_exponent q =
     (if 1 \<le> q then int (ilog2 (nat \<lfloor>q\<rfloor>))
      else - int (Suc (ilog2 (nat (\<lceil>1 / q\<rceil> - 1)))))"

definition pow2 :: "int \<Rightarrow> real" where
  "pow2 e = (if 0 \<le> e then 2 ^ nat e else 1 / 2 ^ nat (- e))"

definition round_half_even :: "real \<Rightarrow> int" where
  "round_half_even y =
     (let f = \<lfloor>y\<rfloor>; r = y - of_int f
      in if r < 1 / 2 then f
         else if 1 / 2 < r then f + 1
         else if even f then f else f + 1)"

definition to_double :: "real \<Rightarrow> real" where
  "to_double q =
     (if q = 0 then 0
      else let u = pow2 (binary_exponent \<bar>q\<bar> - 52)
           in of_int (round_half_even (q / u)) * u)"

definition js_divide :: "real \<Rightarrow> real \<Rightarrow> real" where
  "js_divide x y = to_double (x / y)"

subsection \<open>Number.prototype.toFixed\<close>

definition digit_char :: "nat \<Rightarrow> char" where
  "digit_char d = ''0123456789'' ! d"

fun digits :: "nat \<Rightarrow> string" where
  "digits n = (if n < 10 then [digit_char n] else digits (n div 10) @ [digit_char (n mod 10)])"

declare digits.simps [simp del]

text \<open>
  \<^verbatim>\<open>x.toFixed(f)\<close> for a finite \<^verbatim>\<open>x\<close>, step by step as the language standard has it.
  From \<open>10 ^ 21\<close> on, the standard returns \<^verbatim>\<open>ToString(x)\<close>, which is taken as the
  parameter \<open>toString\<close>. Below, \<open>n\<close> is the integer nearest to \<open>x * 10 ^ f\<close>, the
  larger one of two.
\<close>

definition toFixed :: "(real \<Rightarrow> string) \<Rightarrow> real \<Rightarrow> nat \<Rightarrow> string" where
  "toFixed toString x0 f =
     (let s = (if x0 < 0 then ''-'' else []);
          x = (if x0 < 0 then - x0 else x0)
      in if 10 ^ 21 \<le> x then s @ toString x
         else
           let n = nat \<lfloor>x * 10 ^ f + 1 / 2\<rfloor>;
               m = (if n = 0 then ''0'' else digits n)
           in if f \<noteq> 0 then
                let k = length m;
                    m' = (if k \<le> f then replicate (f + 1 - k) (CHR ''0'') @ m else m);
                    k' = (if k \<le> f then f + 1 else k)
                in s @ take (k' - f) m' @ ''.'' @ drop (k' - f) m'
              else s @ m)"

subsection \<open>formatCurrency and the three rows\<close>

definition formatCurrency :: "(real \<Rightarrow> string) \<Rightarrow> real \<Rightarrow> string" where
  "formatCurrency toString cents = ''$'' @ toFixed toString (js_divide cents 100) 2"

record cost_rows =
  cost_row :: string
  processing_fee_row :: string
  total_row :: string

definition CostBreakdown :: "(real \<Rightarrow> string) \<Rightarrow> real \<Rightarrow> real \<Rightarrow> real \<Rightarrow> cost_rows" where
  "CostBreakdown toString costInCents processingFeeInCents totalInCents =
     \<lparr>cost_row = formatCurrency toString costInCents,
      processing_fee_row = formatCurrency toString processingFeeInCents,
      total_row = formatCurrency toString totalInCents\<rparr>"

record PricingDetails =
  baseCostInCents :: real
  processingFeeInCents :: real
  totalInCents :: real

text \<open>The \<^verbatim>\<open>CostBreakdown\<close> element as \<^verbatim>\<open>StripeCheckout\<close> renders it from its \<^verbatim>\<open>price\<close>.\<close>

definition price_rows :: "(real \<Rightarrow> string) \<Rightarrow> PricingDetails \<Rightarrow> cost_rows" where
  "price_rows toString price =
     CostBreakdown toString (baseCostInCents price) (processingFeeInCents price)
       (totalInCents price)"

text \<open>
  The rule in the words of the specification: the cents divided by 100, with exactly two
  decimals, after a dollar sign.
\<close>

definition spec_formatCurrency :: "nat \<Rightarrow> string" where
  "spec_formatCurrency c =
     ''$'' @ digits (c div 100) @ ''.'' @ [digit_char (c mod 100 div 10), digit_char (c mod 10)]"

section \<open>Auxiliary facts\<close>

subsection \<open>Substring search\<close>


subsection \<open>A submission with both hooks available\<close>

lemma handleSubmit_available:
  assumes "stripe h \<noteq> None" and "elements h \<noteq> None"
  shows "handleSubmit h out oc =
     [PreventDefault, SetIsSubmitting True,
      ConfirmPayment \<lparr>elements_arg = the (elements h), return_url = ''http://cartridge.gg'',
                      redirect = ''if_required''\<rparr>] @ handleSubmit_settle out oc"
  using assms by (auto simp: handleSubmit_def handleSubmit_begin_def)


text \<open>What the second part of the handler does to the state, for each way it can go.\<close>

lemma run_settle_error:
  "error (run (handleSubmit_settle out oc) t) =
     (case out of
        Resolved None \<Rightarrow>
          (case oc of
             Returns \<Rightarrow> error t
           | Throws e \<Rightarrow>
               Some (if str_includes (message e) ''Failed to set the 'href' property''
                     then Error ''Payment unsupported'' else e))
      | Resolved (Some err) \<Rightarrow> Some (new_Error (stripe_message err))
      | Raised e \<Rightarrow>
          Some (if str_includes (message e) ''Failed to set the 'href' property''
                then Error ''Payment unsupported'' else e))"
  by (simp add: handleSubmit_settle_def catch_block_def run_def new_Error_def
      split: confirm_outcome.splits option.splits callback_outcome.splits)

lemma run_settle_flags:
  "\<not> isSubmitting (run (handleSubmit_settle out oc) t)
   \<and> isLoading (run (handleSubmit_settle out oc) t) = isLoading t"
  by (simp add: handleSubmit_settle_def catch_block_def run_def
      split: confirm_outcome.splits option.splits callback_outcome.splits)

lemma run_append: "run (xs @ ys) s = run ys (run xs s)"
  by (simp add: run_def)

lemma run_begin_available:
  assumes "stripe h \<noteq> None" and "elements h \<noteq> None"
  shows "run (handleSubmit_begin h) s = s\<lparr>isSubmitting := True\<rparr>"
  using assms by (auto simp: handleSubmit_begin_def run_def)

lemma run_handleSubmit_available:
  assumes "stripe h \<noteq> None" and "elements h \<noteq> None"
  shows "run (handleSubmit h out oc) s =
     run (handleSubmit_settle out oc) (s\<lparr>isSubmitting := True\<rparr>)"
  using assms by (auto simp: handleSubmit_def handleSubmit_begin_def run_def)

lemma count_OnComplete_settle:
  "count_list (handleSubmit_settle out oc) OnComplete =
     (case out of Resolved None \<Rightarrow> 1 | _ \<Rightarrow> 0)"
  by (simp add: handleSubmit_settle_def catch_block_def
      split: confirm_outcome.splits option.splits callback_outcome.splits)

lemma stripe_calls_settle: "filter is_stripe_call (handleSubmit_settle out oc) = []"
  by (simp add: handleSubmit_settle_def catch_block_def
      split: confirm_outcome.splits option.splits callback_outcome.splits)

subsection \<open>Rounding of the quotient\<close>

lemma ilog2_less: "0 < k \<Longrightarrow> n < 2 ^ k \<Longrightarrow> ilog2 n < k"
proof (induction k arbitrary: n)
  case 0
  then show ?case by simp
next
  case (Suc k)
  show ?case
  proof (cases "n < 2")
    case True
    then show ?thesis by (simp add: ilog2.simps)
  next
    case False
    then have k: "0 < k" using Suc.prems by (cases k) auto
    have "n div 2 < 2 ^ k" using Suc.prems by auto
    then have "ilog2 (n div 2) < k" using Suc.IH k by blast
    then show ?thesis using False by (simp add: ilog2.simps)
  qed
qed

lemma pow2_pos: "0 < pow2 e"
  by (simp add: pow2_def)

lemma pow2_small: "e \<le> - 7 \<Longrightarrow> pow2 e \<le> 1 / 128"
proof -
  assume e: "e \<le> - 7"
  then have "7 \<le> nat (- e)" by simp
  then have "(2::real) ^ 7 \<le> 2 ^ nat (- e)" by (intro power_increasing) auto
  then have "1 / 2 ^ nat (- e) \<le> 1 / (2::real) ^ 7" by (intro divide_left_mono) auto
  then show ?thesis using e by (simp add: pow2_def)
qed

lemma round_half_even_err: "\<bar>of_int (round_half_even y) - y\<bar> \<le> 1 / 2"
  unfolding round_half_even_def Let_def by (auto simp: abs_le_iff; linarith)

lemma round_half_even_nonneg: "0 \<le> y \<Longrightarrow> 0 \<le> round_half_even y"
  unfolding round_half_even_def Let_def by (auto simp: zero_le_floor)

lemma binary_exponent_le: "0 < q \<Longrightarrow> q < 2 ^ 46 \<Longrightarrow> binary_exponent q \<le> 45"
proof -
  assume q: "0 < q" "q < 2 ^ 46"
  show ?thesis
  proof (cases "1 \<le> q")
    case True
    have "\<lfloor>q\<rfloor> < 2 ^ 46" using q by (simp add: floor_less_iff)
    then have "nat \<lfloor>q\<rfloor> < 2 ^ 46" using True by (simp add: nat_less_iff)
    then have "ilog2 (nat \<lfloor>q\<rfloor>) < 46" by (intro ilog2_less) auto
    then show ?thesis using True by (simp add: binary_exponent_def)
  next
    case False
    then show ?thesis by (simp add: binary_exponent_def)
  qed
qed

text \<open>Below \<open>2 ^ 46\<close> the spacing of the representable numbers is at most \<open>1 / 128\<close>.\<close>

lemma to_double_err:
  assumes "0 < q" "q < 2 ^ 46"
  shows "\<bar>to_double q - q\<bar> \<le> 1 / 256"
proof -
  define u where "u = pow2 (binary_exponent \<bar>q\<bar> - 52)"
  have "binary_exponent \<bar>q\<bar> \<le> 45" using assms binary_exponent_le by simp
  then have "binary_exponent \<bar>q\<bar> - 52 \<le> - 7" by simp
  then have "u \<le> 1 / 128" unfolding u_def by (rule pow2_small)
  moreover have "0 < u" unfolding u_def by (rule pow2_pos)
  ultimately have u: "0 < u" "u \<le> 1 / 128" by simp_all
  have td: "to_double q = of_int (round_half_even (q / u)) * u"
    using assms by (simp add: to_double_def u_def Let_def)
  have "to_double q - q = (of_int (round_half_even (q / u)) - q / u) * u"
    using u by (simp add: td algebra_simps)
  then have "\<bar>to_double q - q\<bar> = \<bar>of_int (round_half_even (q / u)) - q / u\<bar> * u"
    using u by (simp add: abs_mult)
  also have "\<dots> \<le> (1 / 2) * u"
    using u round_half_even_err [of "q / u"] by (intro mult_right_mono) auto
  also have "\<dots> \<le> 1 / 256" using u by simp
  finally show ?thesis .
qed

lemma to_double_nonneg: "0 \<le> q \<Longrightarrow> 0 \<le> to_double q"
proof (cases "q = 0")
  case True
  then show ?thesis by (simp add: to_double_def)
next
  case False
  assume q: "0 \<le> q"
  define u where "u = pow2 (binary_exponent \<bar>q\<bar> - 52)"
  have u: "0 < u" unfolding u_def by (rule pow2_pos)
  then have "0 \<le> q / u" using q by simp
  then have "0 \<le> round_half_even (q / u)" by (rule round_half_even_nonneg)
  then have "0 \<le> real_of_int (round_half_even (q / u)) * u" using u by simp
  then show ?thesis using False by (simp add: to_double_def Let_def u_def)
qed

lemma js_divide_cents_close:
  assumes "c < 100 * 2 ^ 46"
  shows "\<bar>js_divide (of_nat c) 100 - of_nat c / 100\<bar> \<le> 1 / 256"
proof (cases "c = 0")
  case True
  then show ?thesis by (simp add: js_divide_def to_double_def)
next
  case False
  have "real c < real (100 * 2 ^ 46)" using assms by (simp only: of_nat_less_iff)
  then have "0 < real c / 100" "real c / 100 < 2 ^ 46" using False by simp_all
  then show ?thesis unfolding js_divide_def by (rule to_double_err)
qed

subsection \<open>Decimal digits\<close>

lemma digit_char_0: "digit_char 0 = CHR ''0''"
  by (simp add: digit_char_def)

lemma digits_small: "n < 10 \<Longrightarrow> digits n = [digit_char n]"
  by (simp add: digits.simps)

lemma digits_step: "10 \<le> n \<Longrightarrow> digits n = digits (n div 10) @ [digit_char (n mod 10)]"
  by (subst digits.simps) simp

lemma digits_nonempty: "digits n \<noteq> []"
  by (subst digits.simps) simp

lemma digits_two:
  assumes "100 \<le> c"
  shows "digits c = digits (c div 100) @ [digit_char (c mod 100 div 10), digit_char (c mod 10)]"
proof -
  have a: "10 \<le> c" "10 \<le> c div 10" using assms by auto
  have b: "c div 10 div 10 = c div 100" by (simp add: div_mult2_eq [symmetric])
  have d: "c div 10 mod 10 = c mod 100 div 10"
    using mod_mult2_eq [of c 10 10] by simp
  have "digits c = digits (c div 10) @ [digit_char (c mod 10)]"
    using a by (simp only: digits_step)
  also have "digits (c div 10) = digits (c div 10 div 10) @ [digit_char (c div 10 mod 10)]"
    using a by (simp only: digits_step)
  finally show ?thesis by (simp only: b d append_assoc append_Cons append_Nil)
qed

text \<open>The padding and the split of \<^verbatim>\<open>toFixed(2)\<close>, once \<open>n\<close> is known to be \<open>c\<close>.\<close>

lemma fixed_two_string:
  "(let m = (if c = 0 then ''0'' else digits c);
        k = length m;
        m' = (if k \<le> 2 then replicate (2 + 1 - k) (CHR ''0'') @ m else m);
        k' = (if k \<le> 2 then 2 + 1 else k)
    in take (k' - 2) m' @ ''.'' @ drop (k' - 2) m')
   = digits (c div 100) @ ''.'' @ [digit_char (c mod 100 div 10), digit_char (c mod 10)]"
proof -
  consider "c < 10" | "10 \<le> c" "c < 100" | "100 \<le> c" by linarith
  then show ?thesis
  proof cases
    case 1
    then have "digits c = [digit_char c]" "digits (c div 100) = ''0''"
      "c mod 100 div 10 = 0" "c mod 10 = c"
      by (simp_all add: digits_small digit_char_0)
    then show ?thesis by (simp add: digit_char_0 numeral_2_eq_2 numeral_3_eq_3)
  next
    case 2
    then have "c div 10 < 10" "c div 100 = 0" "c mod 100 = c" by auto
    then have "digits c = [digit_char (c div 10), digit_char (c mod 10)]"
      "digits (c div 100) = ''0''" "c mod 100 div 10 = c div 10" "c \<noteq> 0"
      using 2 by (simp_all add: digits_step digits_small digit_char_0)
    then show ?thesis by (simp add: digit_char_0 Let_def)
  next
    case 3
    define a where "a = digits (c div 100)"
    have a: "0 < length a" unfolding a_def using digits_nonempty by simp
    have "digits c = a @ [digit_char (c mod 100 div 10), digit_char (c mod 10)]" "c \<noteq> 0"
      using 3 by (simp_all add: digits_two a_def)
    then show ?thesis using a unfolding a_def [symmetric] by (simp add: Let_def)
  qed
qed

lemma toFixed_two_cents:
  assumes "c < 100 * 2 ^ 46"
  shows "toFixed toString (js_divide (of_nat c) 100) 2 =
      digits (c div 100) @ ''.'' @ [digit_char (c mod 100 div 10), digit_char (c mod 10)]"
proof -
  define x where "x = js_divide (of_nat c) 100"
  have close: "\<bar>x - real c / 100\<bar> \<le> 1 / 256"
    unfolding x_def using assms by (rule js_divide_cents_close)
  have x0: "0 \<le> x" unfolding x_def js_divide_def by (rule to_double_nonneg) simp
  have "real c < real (100 * 2 ^ 46)" using assms by (simp only: of_nat_less_iff)
  then have c: "real c / 100 < 2 ^ 46" by simp
  have "x \<le> real c / 100 + 1 / 256" using close by linarith
  also have "\<dots> < 2 ^ 46 + 1 / 256" using c by linarith
  also have "\<dots> < 10 ^ 21" by simp
  finally have x1: "x < 10 ^ 21" .
  have "real c \<le> x * 100 + 1 / 2" "x * 100 + 1 / 2 < real c + 1"
    using close by linarith+
  then have "\<lfloor>x * 100 + 1 / 2\<rfloor> = int c" by (simp add: floor_eq_iff)
  then have n: "nat \<lfloor>x * 10 ^ 2 + 1 / 2\<rfloor> = c" by simp
  have tf: "toFixed toString x 2 =
     (let n = nat \<lfloor>x * 10 ^ 2 + 1 / 2\<rfloor>;
        m = (if n = 0 then ''0'' else digits n);
        k = length m;
        m' = (if k \<le> 2 then replicate (2 + 1 - k) (CHR ''0'') @ m else m);
        k' = (if k \<le> 2 then 2 + 1 else k)
    in take (k' - 2) m' @ ''.'' @ drop (k' - 2) m')"
    using x0 x1 by (simp add: toFixed_def Let_def)
  have "toFixed toString x 2 =
      digits (c div 100) @ ''.'' @ [digit_char (c mod 100 div 10), digit_char (c mod 10)]"
    using tf fixed_two_string [of c] by (simp only: n Let_def)
  then show ?thesis unfolding x_def .
qed

lemma formatCurrency_cents:
  assumes "c < 100 * 2 ^ 46"
  shows "formatCurrency toString (of_nat c) = spec_formatCurrency c"
  unfolding formatCurrency_def spec_formatCurrency_def
  using assms by (simp only: toFixed_two_cents)

section \<open>Verified properties\<close>

subsection \<open>Submission\<close>




text \<open>
  Claim C2. When both hooks are available and the confirmation resolves with an error
  result carrying the message \<open>m\<close>, \<^verbatim>\<open>handleSubmit\<close> sets \<^verbatim>\<open>error\<close> to an error with
  exactly that message (which is what the banner then shows), does not call
  \<^verbatim>\<open>onComplete\<close>, and ends with \<^verbatim>\<open>isSubmitting\<close> false.
\<close>

theorem handleSubmit_error_result:
  assumes "stripe h \<noteq> None" and "elements h \<noteq> None"
  shows "error (run (handleSubmit h (Resolved (Some (StripeError (Some m)))) oc) s)
           = Some (Error m)
       \<and> map_option description
            (error_banner (run (handleSubmit h (Resolved (Some (StripeError (Some m)))) oc) s))
           = Some m
       \<and> count_list (handleSubmit h (Resolved (Some (StripeError (Some m)))) oc) OnComplete = 0
       \<and> \<not> isSubmitting (run (handleSubmit h (Resolved (Some (StripeError (Some m)))) oc) s)"
proof -
  have calls:
    "count_list (handleSubmit h (Resolved (Some (StripeError (Some m)))) oc) OnComplete = 0"
    by (simp add: handleSubmit_available [OF assms] count_OnComplete_settle)
  have state: "run (handleSubmit h (Resolved (Some (StripeError (Some m)))) oc) s =
      run (handleSubmit_settle (Resolved (Some (StripeError (Some m)))) oc)
        (s\<lparr>isSubmitting := True\<rparr>)"
    by (rule run_handleSubmit_available [OF assms])
  show ?thesis
    unfolding calls state
    by (simp add: run_settle_error run_settle_flags new_Error_def error_banner_def)
qed

theorem handleSubmit_error_result_witness:
  "stripe \<lparr>stripe = Some (Stripe 0), elements = Some (StripeElements 0)\<rparr> \<noteq> None
   \<and> elements \<lparr>stripe = Some (Stripe 0), elements = Some (StripeElements 0)\<rparr> \<noteq> None
   \<and> error (run (handleSubmit \<lparr>stripe = Some (Stripe 0), elements = Some (StripeElements 0)\<rparr>
         (Resolved (Some (StripeError (Some ''card_declined'')))) Returns) \<lparr>isLoading = False, isSubmitting = False, error = None\<rparr>)
       = Some (Error ''card_declined'')
   \<and> count_list (handleSubmit \<lparr>stripe = Some (Stripe 0), elements = Some (StripeElements 0)\<rparr>
         (Resolved (Some (StripeError (Some ''card_declined'')))) Returns) OnComplete = 0
   \<and> \<not> isSubmitting (run (handleSubmit \<lparr>stripe = Some (Stripe 0), elements = Some (StripeElements 0)\<rparr>
         (Resolved (Some (StripeError (Some ''card_declined'')))) Returns) \<lparr>isLoading = False, isSubmitting = False, error = None\<rparr>)"
  using handleSubmit_error_result [of "\<lparr>stripe = Some (Stripe 0), elements = Some (StripeElements 0)\<rparr>" "''card_declined''" Returns "\<lparr>isLoading = False, isSubmitting = False, error = None\<rparr>"]
  by simp






text \<open>
  Claim C5. When \<^verbatim>\<open>stripe\<close> or \<^verbatim>\<open>elements\<close> is unavailable, \<^verbatim>\<open>handleSubmit\<close> changes no
  state (\<^verbatim>\<open>isLoading\<close>, \<^verbatim>\<open>isSubmitting\<close>, \<^verbatim>\<open>error\<close>), calls no setter, does not call the
  confirmation operation and does not call \<^verbatim>\<open>onComplete\<close>.
\<close>

theorem handleSubmit_unavailable:
  assumes "stripe h = None \<or> elements h = None"
  shows "run (handleSubmit h out oc) s = s
       \<and> filter is_stripe_call (handleSubmit h out oc) = []
       \<and> filter is_setter (handleSubmit h out oc) = []
       \<and> count_list (handleSubmit h out oc) OnComplete = 0"
  using assms by (auto simp: handleSubmit_def handleSubmit_begin_def run_def)

theorem handleSubmit_unavailable_witness:
  "stripe \<lparr>stripe = None, elements = Some (StripeElements 0)\<rparr> = None
   \<and> run (handleSubmit \<lparr>stripe = None, elements = Some (StripeElements 0)\<rparr> (Resolved None) Returns) \<lparr>isLoading = False, isSubmitting = False, error = None\<rparr> = \<lparr>isLoading = False, isSubmitting = False, error = None\<rparr>
   \<and> filter is_stripe_call (handleSubmit \<lparr>stripe = None, elements = Some (StripeElements 0)\<rparr> (Resolved None) Returns) = []
   \<and> elements \<lparr>stripe = Some (Stripe 0), elements = None\<rparr> = None
   \<and> run (handleSubmit \<lparr>stripe = Some (Stripe 0), elements = None\<rparr> (Resolved None) Returns) \<lparr>isLoading = False, isSubmitting = False, error = Some (Error ''card_declined'')\<rparr> = \<lparr>isLoading = False, isSubmitting = False, error = Some (Error ''card_declined'')\<rparr>
   \<and> filter is_stripe_call (handleSubmit \<lparr>stripe = Some (Stripe 0), elements = None\<rparr> (Resolved None) Returns) = []"
  using handleSubmit_unavailable [of "\<lparr>stripe = None, elements = Some (StripeElements 0)\<rparr>" "Resolved None" Returns "\<lparr>isLoading = False, isSubmitting = False, error = None\<rparr>"]
    handleSubmit_unavailable [of "\<lparr>stripe = Some (Stripe 0), elements = None\<rparr>" "Resolved None" Returns "\<lparr>isLoading = False, isSubmitting = False, error = Some (Error ''card_declined'')\<rparr>"]
  by simp

text \<open>
  Claim C9. With both hooks available, \<^verbatim>\<open>handleSubmit\<close> first sets \<^verbatim>\<open>isSubmitting\<close> to
  true and next calls \<^verbatim>\<open>confirmPayment\<close> with the elements, the return URL
  \<^verbatim>\<open>http://cartridge.gg\<close> and the redirect policy \<^verbatim>\<open>if_required\<close>; while the call is
  awaited \<^verbatim>\<open>isSubmitting\<close> is true; whatever the outcome, that is the only call on the
  payment capability in the whole handler, and the two event handlers make none.
\<close>

theorem handleSubmit_confirms_once:
  assumes "stripe h = Some st" and "elements h = Some el"
  shows "take 3 (handleSubmit h out oc) =
           [PreventDefault, SetIsSubmitting True,
            ConfirmPayment \<lparr>elements_arg = el, return_url = ''http://cartridge.gg'',
                            redirect = ''if_required''\<rparr>]
       \<and> isSubmitting (run (handleSubmit_begin h) s)
       \<and> filter is_stripe_call (handleSubmit h out oc) =
           [ConfirmPayment \<lparr>elements_arg = el, return_url = ''http://cartridge.gg'',
                            redirect = ''if_required''\<rparr>]
       \<and> filter is_stripe_call onReady = []
       \<and> filter is_stripe_call onChange = []"
proof -
  have h: "stripe h \<noteq> None" "elements h \<noteq> None" using assms by simp_all
  show ?thesis
    using assms
    by (simp add: handleSubmit_available [OF h] run_begin_available [OF h]
        stripe_calls_settle onReady_def onChange_def)
qed

theorem handleSubmit_confirms_once_witness:
  "stripe \<lparr>stripe = Some (Stripe 0), elements = Some (StripeElements 7)\<rparr> = Some (Stripe 0)
   \<and> elements \<lparr>stripe = Some (Stripe 0), elements = Some (StripeElements 7)\<rparr> = Some (StripeElements 7)
   \<and> isSubmitting (run (handleSubmit_begin \<lparr>stripe = Some (Stripe 0), elements = Some (StripeElements 7)\<rparr>) \<lparr>isLoading = False, isSubmitting = False, error = None\<rparr>)
   \<and> filter is_stripe_call (handleSubmit \<lparr>stripe = Some (Stripe 0), elements = Some (StripeElements 7)\<rparr> (Resolved None) Returns) =
       [ConfirmPayment \<lparr>elements_arg = StripeElements 7, return_url = ''http://cartridge.gg'',
                        redirect = ''if_required''\<rparr>]"
  using handleSubmit_confirms_once
      [of "\<lparr>stripe = Some (Stripe 0), elements = Some (StripeElements 7)\<rparr>" "Stripe 0" "StripeElements 7" "Resolved None" Returns "\<lparr>isLoading = False, isSubmitting = False, error = None\<rparr>"]
  by simp

text \<open>
  Claim C10. When both hooks are available and the confirmation resolves with an error
  result that has no message, \<^verbatim>\<open>error\<close> is still set, to an error whose message is the
  empty string, and the banner is rendered with the empty description.
\<close>

theorem error_without_message:
  assumes "stripe h \<noteq> None" and "elements h \<noteq> None"
  shows "error (run (handleSubmit h (Resolved (Some (StripeError None))) oc) s) = Some (Error [])
       \<and> error_banner (run (handleSubmit h (Resolved (Some (StripeError None))) oc) s) =
           Some \<lparr>variant = ''error'', title = ''Stripe Checkout Error'', description = []\<rparr>"
  by (simp add: run_handleSubmit_available [OF assms] run_settle_error
      new_Error_def error_banner_def)

theorem error_without_message_witness:
  "stripe \<lparr>stripe = Some (Stripe 0), elements = Some (StripeElements 0)\<rparr> \<noteq> None
   \<and> elements \<lparr>stripe = Some (Stripe 0), elements = Some (StripeElements 0)\<rparr> \<noteq> None
   \<and> error_banner (run (handleSubmit \<lparr>stripe = Some (Stripe 0), elements = Some (StripeElements 0)\<rparr> (Resolved (Some (StripeError None))) Returns) \<lparr>isLoading = False, isSubmitting = False, error = None\<rparr>) =
       Some \<lparr>variant = ''error'', title = ''Stripe Checkout Error'', description = []\<rparr>"
  using error_without_message [of "\<lparr>stripe = Some (Stripe 0), elements = Some (StripeElements 0)\<rparr>" Returns "\<lparr>isLoading = False, isSubmitting = False, error = None\<rparr>"]
  by simp

subsection \<open>The payment element and the button\<close>

text \<open>
  Claim C6. The button is disabled exactly when a submission is in flight, or \<^verbatim>\<open>stripe\<close>
  is unavailable, or \<^verbatim>\<open>elements\<close> is unavailable, or the element has not reported ready.
  So it is disabled whenever \<^verbatim>\<open>isLoading\<close> is true, and it is enabled after the ready event
  when no submission is in flight and both hooks are available.
\<close>

theorem button_disabled_iff:
  "(button_disabled h s \<longleftrightarrow>
      isSubmitting s \<or> stripe h = None \<or> elements h = None \<or> isLoading s)
   \<and> (isLoading s \<longrightarrow> button_disabled h s)
   \<and> (stripe h \<noteq> None \<and> elements h \<noteq> None \<and> \<not> isSubmitting s \<longrightarrow>
        \<not> button_disabled h (run onReady s))"
  by (simp add: button_disabled_def onReady_def run_def)

theorem button_disabled_iff_witness:
  "isLoading initial_state
   \<and> button_disabled \<lparr>stripe = Some (Stripe 0), elements = Some (StripeElements 0)\<rparr> initial_state
   \<and> stripe \<lparr>stripe = Some (Stripe 0), elements = Some (StripeElements 0)\<rparr> \<noteq> None \<and> elements \<lparr>stripe = Some (Stripe 0), elements = Some (StripeElements 0)\<rparr> \<noteq> None \<and> \<not> isSubmitting initial_state
   \<and> \<not> button_disabled \<lparr>stripe = Some (Stripe 0), elements = Some (StripeElements 0)\<rparr> (run onReady initial_state)"
  using button_disabled_iff [of "\<lparr>stripe = Some (Stripe 0), elements = Some (StripeElements 0)\<rparr>" initial_state]
  by (simp add: initial_state_def)

text \<open>
  Claim C8. From any state, a change event of the payment element unsets \<^verbatim>\<open>error\<close>, so no
  banner is rendered; \<^verbatim>\<open>isLoading\<close> and \<^verbatim>\<open>isSubmitting\<close> stay as they were.
\<close>

theorem onChange_clears_error:
  "error (run onChange s) = None
   \<and> error_banner (run onChange s) = None
   \<and> isLoading (run onChange s) = isLoading s
   \<and> isSubmitting (run onChange s) = isSubmitting s"
  by (simp add: onChange_def run_def error_banner_def)

theorem onChange_clears_error_witness:
  "error (run onChange
       \<lparr>isLoading = True, isSubmitting = True, error = Some (Error ''card_declined'')\<rparr>) = None
   \<and> error_banner (run onChange
       \<lparr>isLoading = True, isSubmitting = True, error = Some (Error ''card_declined'')\<rparr>) = None"
  using onChange_clears_error
      [of "\<lparr>isLoading = True, isSubmitting = True, error = Some (Error ''card_declined'')\<rparr>"]
  by simp

subsection \<open>Further properties of the form\<close>

text \<open>
  While the confirmation is awaited the button is disabled, whatever the rest of the
  state: a second submission cannot be started from the button.
\<close>

theorem button_disabled_in_flight:
  assumes "stripe h \<noteq> None" and "elements h \<noteq> None"
  shows "button_disabled h (run (handleSubmit_begin h) s)"
  by (simp add: run_begin_available [OF assms] button_disabled_def)

theorem button_disabled_in_flight_witness:
  "stripe \<lparr>stripe = Some (Stripe 0), elements = Some (StripeElements 0)\<rparr> \<noteq> None
   \<and> elements \<lparr>stripe = Some (Stripe 0), elements = Some (StripeElements 0)\<rparr> \<noteq> None
   \<and> button_disabled \<lparr>stripe = Some (Stripe 0), elements = Some (StripeElements 0)\<rparr> (run (handleSubmit_begin \<lparr>stripe = Some (Stripe 0), elements = Some (StripeElements 0)\<rparr>) \<lparr>isLoading = False, isSubmitting = False, error = None\<rparr>)"
  using button_disabled_in_flight [of "\<lparr>stripe = Some (Stripe 0), elements = Some (StripeElements 0)\<rparr>" "\<lparr>isLoading = False, isSubmitting = False, error = None\<rparr>"]
  by simp

text \<open>
  After a submission has ended, in whichever way, the button is enabled again once the
  payment element is ready, independently of the error that was or is now set.
\<close>

theorem resubmission_possible:
  assumes "stripe h \<noteq> None" and "elements h \<noteq> None" and "\<not> isLoading s"
  shows "\<not> button_disabled h (run (handleSubmit h out oc) s)"
  using assms
  by (simp add: run_handleSubmit_available [OF assms(1,2)] run_settle_flags button_disabled_def)

theorem resubmission_possible_witness:
  "stripe \<lparr>stripe = Some (Stripe 0), elements = Some (StripeElements 0)\<rparr> \<noteq> None
   \<and> elements \<lparr>stripe = Some (Stripe 0), elements = Some (StripeElements 0)\<rparr> \<noteq> None
   \<and> \<not> isLoading \<lparr>isLoading = False, isSubmitting = False, error = Some (Error ''card_declined'')\<rparr>
   \<and> \<not> button_disabled \<lparr>stripe = Some (Stripe 0), elements = Some (StripeElements 0)\<rparr>
         (run (handleSubmit \<lparr>stripe = Some (Stripe 0), elements = Some (StripeElements 0)\<rparr> (Resolved (Some (StripeError (Some ''expired_card'')))) Returns)
            \<lparr>isLoading = False, isSubmitting = False, error = Some (Error ''card_declined'')\<rparr>)"
  using resubmission_possible [of "\<lparr>stripe = Some (Stripe 0), elements = Some (StripeElements 0)\<rparr>" "\<lparr>isLoading = False, isSubmitting = False, error = Some (Error ''card_declined'')\<rparr>"
      "Resolved (Some (StripeError (Some ''expired_card'')))" Returns]
  by simp

text \<open>
  The ready event clears \<^verbatim>\<open>isLoading\<close> and touches nothing else; the form starts with
  \<^verbatim>\<open>isLoading\<close> true, no submission in flight and no error.
\<close>

theorem onReady_clears_loading:
  "\<not> isLoading (run onReady s)
   \<and> isSubmitting (run onReady s) = isSubmitting s
   \<and> error (run onReady s) = error s
   \<and> initial_state = \<lparr>isLoading = True, isSubmitting = False, error = None\<rparr>"
  by (simp add: onReady_def run_def initial_state_def)

theorem onReady_clears_loading_witness:
  "\<not> isLoading (run onReady initial_state)
   \<and> error (run onReady initial_state) = None"
  using onReady_clears_loading [of initial_state]
  by (simp add: initial_state_def)

subsection \<open>The cost summary\<close>

text \<open>
  Claim C7, as amended. For cent values that are non-negative integers below
  \<open>100 * 2 ^ 46 = 7036874417766400\<close>, each of the three rows is the value divided by 100
  with exactly two decimals after a dollar sign: the decimal digits of the whole dollars,
  a point, and the two digits of the remaining cents. For 999, 58 and 1057 cents the rows
  are \<^verbatim>\<open>$9.99\<close>, \<^verbatim>\<open>$0.58\<close> and \<^verbatim>\<open>$10.57\<close>.
\<close>

theorem price_rows_two_decimals:
  assumes "b < 100 * 2 ^ 46" and "f < 100 * 2 ^ 46" and "t < 100 * 2 ^ 46"
  shows "price_rows toString
           \<lparr>baseCostInCents = of_nat b, processingFeeInCents = of_nat f,
            totalInCents = of_nat t\<rparr>
       = \<lparr>cost_row = spec_formatCurrency b, processing_fee_row = spec_formatCurrency f,
          total_row = spec_formatCurrency t\<rparr>"
  using assms by (simp add: price_rows_def CostBreakdown_def formatCurrency_cents)

theorem price_rows_two_decimals_witness:
  "(999::nat) < 100 * 2 ^ 46 \<and> (58::nat) < 100 * 2 ^ 46 \<and> (1057::nat) < 100 * 2 ^ 46
   \<and> price_rows (\<lambda>x. [])
         \<lparr>baseCostInCents = 999, processingFeeInCents = 58, totalInCents = 1057\<rparr>
       = \<lparr>cost_row = ''$9.99'', processing_fee_row = ''$0.58'', total_row = ''$10.57''\<rparr>"
proof -
  have s: "spec_formatCurrency 999 = ''$9.99''" "spec_formatCurrency 58 = ''$0.58''"
    "spec_formatCurrency 1057 = ''$10.57''"
    by (simp_all add: spec_formatCurrency_def digits.simps digit_char_def)
  have h: "(999::nat) < 100 * 2 ^ 46" "(58::nat) < 100 * 2 ^ 46" "(1057::nat) < 100 * 2 ^ 46"
    by simp_all
  show ?thesis
    using price_rows_two_decimals [OF h, of "\<lambda>x. []"] by (simp add: s)
qed

text \<open>
  Claim C7 as stated fails for large integers: 7036874417766401 cents are
  70368744177664.01 dollars, and the row shows \<^verbatim>\<open>$70368744177664.02\<close>, because the
  quotient is rounded to the nearest representable number, 70368744177664.015625, before
  it is formatted.
\<close>

theorem formatCurrency_beyond_precision:
  "formatCurrency (\<lambda>x. []) 7036874417766401 = ''$70368744177664.02''
   \<and> spec_formatCurrency 7036874417766401 = ''$70368744177664.01''"
proof -
  have d: "js_divide 7036874417766401 100 = 4503599627370497 / 64"
    by (simp add: js_divide_def to_double_def binary_exponent_def pow2_def
        round_half_even_def Let_def ilog2.simps)
  have t: "toFixed (\<lambda>x. []) (4503599627370497 / 64) 2 = ''70368744177664.02''"
    apply (simp add: toFixed_def Let_def)
    apply (simp add: digits.simps)
    apply (simp add: digit_char_def)
    done
  have s: "spec_formatCurrency 7036874417766401 = ''$70368744177664.01''"
    by (simp add: spec_formatCurrency_def digits.simps digit_char_def)
  show ?thesis by (simp add: formatCurrency_def d t s)
qed

end
